theory Spec2Isabelle
  imports Complex_Main "HOL-Library.AList" "HOL-Library.Char_ord" "HOL-Library.List_Lexorder"
    "HOL-Library.Sublist" "HOL-Library.Multiset"
begin

section \<open>JavaScript values\<close>

text \<open>
  The store is dynamically typed: every public operation inspects the shape of its
  arguments at run time (\<open>typeof\<close>, \<open>isDate\<close>, \<open>Array.isArray\<close>, \<open>isFinite\<close>,
  \<open>Number.isInteger\<close>, truthiness). The values are modelled by one datatype.

  \<^item> A finite number is a rational; the three non-finite numbers are separate
    constructors. Precision and range of doubles are not modelled.
  \<^item> A date is its time value in milliseconds (invalid dates are not modelled).
  \<^item> An array is identified with its canonical serialised form, the text that
    \<open>JSON.stringify\<close> yields for it and that \<open>JSON.parse\<close> turns back into it. The
    elements are not exposed.
  \<^item> A plain object is the list of its own enumerable properties in the order
    \<open>Object.keys\<close> enumerates them; keys are distinct in a well-formed object and the
    object inherits from \<open>Object.prototype\<close> only.
  \<^item> \<open>JFunction\<close> stands for a callable value.
\<close>

datatype jsval =
    JUndefined
  | JNull
  | JBool bool
  | JNum rat
  | JNaN
  | JInfinity
  | JNegInfinity
  | JStr string
  | JDate int
  | JArr string
  | JObj "(string \<times> jsval) list"
  | JFunction

fun typeof :: "jsval \<Rightarrow> string" where
  "typeof JUndefined = ''undefined''"
| "typeof JNull = ''object''"
| "typeof (JBool b) = ''boolean''"
| "typeof (JNum r) = ''number''"
| "typeof JNaN = ''number''"
| "typeof JInfinity = ''number''"
| "typeof JNegInfinity = ''number''"
| "typeof (JStr s) = ''string''"
| "typeof (JDate d) = ''object''"
| "typeof (JArr a) = ''object''"
| "typeof (JObj kvs) = ''object''"
| "typeof JFunction = ''function''"

text \<open>Truthiness, as used by \<open>!x\<close> and \<open>x ? a : b\<close>.\<close>

fun truthy :: "jsval \<Rightarrow> bool" where
  "truthy JUndefined = False"
| "truthy JNull = False"
| "truthy (JBool b) = b"
| "truthy (JNum r) = (r \<noteq> 0)"
| "truthy JNaN = False"
| "truthy JInfinity = True"
| "truthy JNegInfinity = True"
| "truthy (JStr s) = (s \<noteq> [])"
| "truthy (JDate d) = True"
| "truthy (JArr a) = True"
| "truthy (JObj kvs) = True"
| "truthy JFunction = True"

fun isDate :: "jsval \<Rightarrow> bool" where
  "isDate (JDate d) = True"
| "isDate v = False"

fun getTime :: "jsval \<Rightarrow> int" where
  "getTime (JDate d) = d"
| "getTime v = 0"

fun Array_isArray :: "jsval \<Rightarrow> bool" where
  "Array_isArray (JArr a) = True"
| "Array_isArray v = False"

fun isFinite :: "jsval \<Rightarrow> bool" where
  "isFinite (JNum r) = True"
| "isFinite v = False"

fun Number_isInteger :: "jsval \<Rightarrow> bool" where
  "Number_isInteger (JNum r) = (of_int \<lfloor>r\<rfloor> = r)"
| "Number_isInteger v = False"

text \<open>The payload of a number, a string, and the serialised form of an array.\<close>

fun number_of :: "jsval \<Rightarrow> rat" where
  "number_of (JNum r) = r"
| "number_of v = 0"

fun string_of :: "jsval \<Rightarrow> string" where
  "string_of (JStr s) = s"
| "string_of v = []"

fun JSON_stringify :: "jsval \<Rightarrow> string" where
  "JSON_stringify (JArr a) = a"
| "JSON_stringify v = []"

section \<open>Errors\<close>

text \<open>
  Every \<open>throw\<close> of the source is a constructor; \<open>TypeError\<close> is the run-time error of
  the language itself (reading the keys of \<open>null\<close> or \<open>undefined\<close>, calling something
  that is not a function, converting an object to a primitive and failing).
  \<open>OutsideModel\<close> marks the few places where the source would enumerate or mutate an
  array or a date object as if it were a plain object, or run a user-supplied function:
  these behaviours depend on parts of the values that the embedding does not represent.
\<close>

datatype error =
    NotInitialized       \<comment> \<open>tsdb: Call initialize before accessing tables\<close>
  | TimestampNotDate     \<comment> \<open>tsdb: timestamp of type ... is not a date\<close>
  | BadNode              \<comment> \<open>node is not a number or a string of length 1..127\<close>
  | BadField             \<comment> \<open>tsdb: field ... is not a string or has bad length\<close>
  | StringTooLong        \<comment> \<open>tsdb: String value ... exceeds max length\<close>
  | ArrayTooLong         \<comment> \<open>tsdb: ... representation length ... exceeds max length\<close>
  | UnsupportedValue     \<comment> \<open>tdsb: no support for value of type ...\<close>
  | NotAnObject          \<comment> \<open>tsdb: inserted object is not an object\<close>
  | ValueAndObject       \<comment> \<open>tsdb: the object has value and object at same location\<close>
  | BadLimit             \<comment> \<open>tsdb: limit must be a natural number, less than 10001\<close>
  | FieldNotString       \<comment> \<open>tsdb: field must be string\<close>
  | WhenNotDate          \<comment> \<open>tsdb: when must be a date\<close>
  | NotSure              \<comment> \<open>tsdb: do not delete if not sure\<close>
  | TypeError
  | OutsideModel

section \<open>Tables\<close>

text \<open>
  One table per type, in the order of the keys of \<open>TS_TABLES\<close>. The tables share their
  schema except for the column \<open>value\<close>: TEXT for strings and arrays, DOUBLE for
  numbers, BIGINT for dates, TINYINT for booleans. A table is the list of its rows in
  insertion order together with its AUTO_INCREMENT counter.

  The storage backend is an external package. Its statements are modelled by their
  relational meaning: comparisons of \<open>node\<close> and \<open>field\<close> are equality of the values,
  \<open>ORDER BY\<close> is a stable sort of the rows in insertion order, every statement succeeds,
  and statements take effect in the order in which the source issues them.
\<close>

datatype ts_type = TString | TNumber | TArray | TDate | TBoolean

definition TS_TABLES_keys :: "ts_type list" where
  "TS_TABLES_keys = [TString, TNumber, TArray, TDate, TBoolean]"

fun TS_TABLES :: "ts_type \<Rightarrow> string" where
  "TS_TABLES TString = ''ts_string''"
| "TS_TABLES TNumber = ''ts_number''"
| "TS_TABLES TArray = ''ts_array''"
| "TS_TABLES TDate = ''ts_date''"
| "TS_TABLES TBoolean = ''ts_boolean''"

definition MAX_ID_SIZE :: nat where "MAX_ID_SIZE = 128"
definition MAX_FIELD_SIZE :: nat where "MAX_FIELD_SIZE = 512"
definition MAX_STRING_SIZE :: nat where "MAX_STRING_SIZE = 4096"
definition MAX_ARRAY_SIZE :: nat where "MAX_ARRAY_SIZE = 16384"

record 'v row =
  rid :: nat
  rnode :: jsval
  rfield :: string
  rvalue :: 'v
  rtimestamp :: int
  rlatest :: nat

record 'v tbl =
  trows :: "'v row list"
  tnext :: nat

record db =
  tsdbTablePrefix :: "string option"
  ts_string :: "string tbl"
  ts_number :: "rat tbl"
  ts_array :: "string tbl"
  ts_date :: "int tbl"
  ts_boolean :: "int tbl"

definition getTableForType :: "db \<Rightarrow> ts_type \<Rightarrow> error + string" where
  "getTableForType st type =
     (case tsdbTablePrefix st of
        None \<Rightarrow> Inl NotInitialized
      | Some bound \<Rightarrow>
          if bound = [] then Inl NotInitialized
          else Inr (bound @ ''_'' @ TS_TABLES type))"

text \<open>\<open>lock\<close> resolves every table name before it looks at the locking flag.\<close>

definition lock :: "db \<Rightarrow> error option" where
  "lock st =
     (case getTableForType st TString of Inl e \<Rightarrow> Some e | Inr n \<Rightarrow> None)"

section \<open>Writing one observation\<close>

definition isNode :: "jsval \<Rightarrow> bool" where
  "isNode node =
     (if typeof node = ''number'' then True
      else if typeof node = ''string'' \<and> length (string_of node) > 0
              \<and> length (string_of node) < MAX_ID_SIZE then True
      else False)"

text \<open>
  \<open>SELECT id FROM table WHERE node=... AND timestamp > ... AND FIELD=... AND latest=1\<close>
\<close>

definition morerecents :: "'v tbl \<Rightarrow> jsval \<Rightarrow> string \<Rightarrow> int \<Rightarrow> 'v row list" where
  "morerecents table node field timestamp_ms =
     filter (\<lambda>r. rnode r = node \<and> rtimestamp r > timestamp_ms \<and> rfield r = field \<and> rlatest r = 1)
       (trows table)"

definition checkIsLatest :: "'v tbl \<Rightarrow> jsval \<Rightarrow> string \<Rightarrow> int \<Rightarrow> nat" where
  "checkIsLatest table node field timestamp_ms =
     (if length (morerecents table node field timestamp_ms) > 0 then 0 else 1)"

text \<open>
  \<open>sqlapi.insert\<close> appends the row and returns the generated id.
\<close>

definition sql_insert ::
  "'v tbl \<Rightarrow> jsval \<Rightarrow> string \<Rightarrow> 'v \<Rightarrow> int \<Rightarrow> nat \<Rightarrow> nat \<times> 'v tbl" where
  "sql_insert table node field val timestamp_ms latest =
     (tnext table,
      table\<lparr>trows := trows table @
                [\<lparr>rid = tnext table, rnode = node, rfield = field, rvalue = val,
                  rtimestamp = timestamp_ms, rlatest = latest\<rparr>],
            tnext := Suc (tnext table)\<rparr>)"

text \<open>
  \<open>setIsLatest(table, node, field, id, latest)\<close>: the last argument is \<open>None\<close> when the
  caller leaves it out, so that the parameter is \<open>undefined\<close> and \<open>!latest\<close> holds.
  \<open>UPDATE table SET latest=0 WHERE node=... AND field=... AND latest=1 AND id<>...\<close>
\<close>

definition setIsLatest ::
  "'v tbl \<Rightarrow> jsval \<Rightarrow> string \<Rightarrow> nat \<Rightarrow> nat option \<Rightarrow> 'v tbl" where
  "setIsLatest table node field ident latest =
     (if latest = None \<or> latest = Some 0 then table
      else table\<lparr>trows :=
             map (\<lambda>r. if rnode r = node \<and> rfield r = field \<and> rlatest r = 1 \<and> rid r \<noteq> ident
                       then r\<lparr>rlatest := 0\<rparr> else r)
               (trows table)\<rparr>)"

text \<open>
  The five writers. Each takes the time value of the (already validated) timestamp.
  The number and boolean writers do not await \<open>setIsLatest\<close>; its statement is issued
  before they return all the same, so it takes effect before any later statement.
\<close>

definition insertCheckedNumber ::
  "db \<Rightarrow> jsval \<Rightarrow> string \<Rightarrow> rat \<Rightarrow> int \<Rightarrow> error + (nat \<times> db)" where
  "insertCheckedNumber st node field val timestamp_ms =
     (case getTableForType st TNumber of
        Inl e \<Rightarrow> Inl e
      | Inr name \<Rightarrow>
          let table = ts_number st;
              latest = checkIsLatest table node field timestamp_ms;
              (result, table1) = sql_insert table node field val timestamp_ms latest;
              table2 = setIsLatest table1 node field result (Some latest)
          in Inr (result, st\<lparr>ts_number := table2\<rparr>))"

definition insertCheckedBoolean ::
  "db \<Rightarrow> jsval \<Rightarrow> string \<Rightarrow> bool \<Rightarrow> int \<Rightarrow> error + (nat \<times> db)" where
  "insertCheckedBoolean st node field val timestamp_ms =
     (case getTableForType st TBoolean of
        Inl e \<Rightarrow> Inl e
      | Inr name \<Rightarrow>
          let table = ts_boolean st;
              latest = checkIsLatest table node field timestamp_ms;
              (result, table1) =
                 sql_insert table node field (if val then 1 else 0) timestamp_ms latest;
              table2 = setIsLatest table1 node field result (Some latest)
          in Inr (result, st\<lparr>ts_boolean := table2\<rparr>))"

definition insertCheckedString ::
  "db \<Rightarrow> jsval \<Rightarrow> string \<Rightarrow> string \<Rightarrow> int \<Rightarrow> error + (nat \<times> db)" where
  "insertCheckedString st node field val timestamp_ms =
     (if length val > MAX_STRING_SIZE then Inl StringTooLong
      else case getTableForType st TString of
        Inl e \<Rightarrow> Inl e
      | Inr name \<Rightarrow>
          let table = ts_string st;
              latest = checkIsLatest table node field timestamp_ms;
              (result, table1) = sql_insert table node field val timestamp_ms latest;
              table2 = setIsLatest table1 node field result (Some latest)
          in Inr (result, st\<lparr>ts_string := table2\<rparr>))"

text \<open>The array writer stores \<open>JSON.stringify(value)\<close>, the array's serialised form.\<close>

definition insertCheckedArray ::
  "db \<Rightarrow> jsval \<Rightarrow> string \<Rightarrow> string \<Rightarrow> int \<Rightarrow> error + (nat \<times> db)" where
  "insertCheckedArray st node field repr timestamp_ms =
     (if length repr > MAX_ARRAY_SIZE then Inl ArrayTooLong
      else case getTableForType st TArray of
        Inl e \<Rightarrow> Inl e
      | Inr name \<Rightarrow>
          let table = ts_array st;
              latest = checkIsLatest table node field timestamp_ms;
              (result, table1) = sql_insert table node field repr timestamp_ms latest;
              table2 = setIsLatest table1 node field result (Some latest)
          in Inr (result, st\<lparr>ts_array := table2\<rparr>))"

text \<open>
  The date writer calls \<open>setIsLatest(table, node, field, result)\<close> with four arguments.
\<close>

definition insertCheckedDate ::
  "db \<Rightarrow> jsval \<Rightarrow> string \<Rightarrow> int \<Rightarrow> int \<Rightarrow> error + (nat \<times> db)" where
  "insertCheckedDate st node field value_ms timestamp_ms =
     (case getTableForType st TDate of
        Inl e \<Rightarrow> Inl e
      | Inr name \<Rightarrow>
          let table = ts_date st;
              latest = checkIsLatest table node field timestamp_ms;
              (result, table1) = sql_insert table node field value_ms timestamp_ms latest;
              table2 = setIsLatest table1 node field result None
          in Inr (result, st\<lparr>ts_date := table2\<rparr>))"

section \<open>Flattening: insert, insertCheckedObject, insertObject\<close>

text \<open>
  The outcome of an asynchronous writer is the error its promise is rejected with, if
  any, and the database once every statement it has issued has taken effect.
\<close>

definition settled :: "db \<Rightarrow> error + (nat \<times> db) \<Rightarrow> error option \<times> db" where
  "settled st r = (case r of Inl e \<Rightarrow> (Some e, st) | Inr (result, st') \<Rightarrow> (None, st'))"

text \<open>
  \<open>value == 'object'\<close>, the loose comparison inside \<open>typeof(value == 'object')\<close>. An
  object is converted to a primitive first: \<open>valueOf\<close>, then \<open>toString\<close>, own
  properties shadowing the inherited methods. The inherited \<open>valueOf\<close> returns the
  object itself, the inherited \<open>toString\<close> returns \<open>[object Object]\<close>; an own property
  that is not callable is skipped, and the conversion throws when neither yields a
  primitive.
\<close>

fun loose_eq_object :: "jsval \<Rightarrow> error + bool" where
  "loose_eq_object (JStr s) = Inr (s = ''object'')"
| "loose_eq_object (JArr a) = Inl OutsideModel"
| "loose_eq_object (JObj kvs) =
     (if map_of kvs ''valueOf'' = Some JFunction then Inl OutsideModel
      else case map_of kvs ''toString'' of
             None \<Rightarrow> Inr False
           | Some f \<Rightarrow> if f = JFunction then Inl OutsideModel else Inl TypeError)"
| "loose_eq_object v = Inr False"

text \<open>
  \<open>insert\<close> (here \<open>insert_tsdb\<close>) validates and dispatches on the shape of the value; \<open>insertCheckedObject\<close>
  enumerates \<open>Object.keys(value)\<close> and calls \<open>insert\<close> once per key with the sub-field
  \<open>field + "." + key\<close> and the value stored under the key; \<open>Promise.all\<close> is rejected
  with the first rejection, and the other calls run to completion all the same.
  \<open>insert\<close> does not await \<open>insertCheckedObject\<close>: its writes happen, its rejection is
  not reported. The parameter \<open>field\<close> is always a string here (it is built by
  concatenation), so that only its length is checked.

  The calls of one \<open>Promise.all\<close> are modelled one after the other in key order.
\<close>

function insert_tsdb :: "db \<Rightarrow> jsval \<Rightarrow> string \<Rightarrow> jsval \<Rightarrow> jsval \<Rightarrow> error option \<times> db"
and insertCheckedObject :: "db \<Rightarrow> jsval \<Rightarrow> string \<Rightarrow> jsval \<Rightarrow> jsval \<Rightarrow> error option \<times> db"
and insertEach :: "db \<Rightarrow> jsval \<Rightarrow> string \<Rightarrow> (string \<times> jsval) list \<Rightarrow> jsval \<Rightarrow> error option \<times> db"
where
  "insert_tsdb st node field val timestamp =
     (if \<not> isDate timestamp then (Some TimestampNotDate, st)
      else if \<not> isNode node then (Some BadNode, st)
      else if length field = 0 \<or> length field > MAX_FIELD_SIZE then (Some BadField, st)
      else if typeof val = ''number'' \<and> isFinite val then
        settled st (insertCheckedNumber st node field (number_of val)
                      (getTime timestamp))
      else if typeof val = ''string'' then
        settled st (insertCheckedString st node field (string_of val)
                      (getTime timestamp))
      else if typeof val = ''boolean'' then
        settled st (insertCheckedBoolean st node field (truthy val) (getTime timestamp))
      else if isDate val then
        settled st (insertCheckedDate st node field (getTime val) (getTime timestamp))
      else if Array_isArray val then
        settled st (insertCheckedArray st node field (JSON_stringify val)
                      (getTime timestamp))
      else case loose_eq_object val of
             Inl e \<Rightarrow> (Some e, st)
           | Inr b \<Rightarrow>
               if truthy (JStr (typeof (JBool b))) then
                 (None, snd (insertCheckedObject st node field val timestamp))
               else (Some UnsupportedValue, st))"
| "insertCheckedObject st node field val timestamp =
     (case val of
        JObj kvs \<Rightarrow> insertEach st node field kvs timestamp
      | JUndefined \<Rightarrow> (Some TypeError, st)
      | JNull \<Rightarrow> (Some TypeError, st)
      | JStr s \<Rightarrow> if s = [] then (None, st) else (Some OutsideModel, st)
      | JArr a \<Rightarrow> if a = ''[]'' then (None, st) else (Some OutsideModel, st)
      | _ \<Rightarrow> (None, st))"
| "insertEach st node field [] timestamp = (None, st)"
| "insertEach st node field ((k, v) # kvs) timestamp =
     (let (e1, st1) = insert_tsdb st node (field @ ''.'' @ k) v timestamp;
          (e2, st2) = insertEach st1 node field kvs timestamp
      in (if e1 \<noteq> None then e1 else e2, st2))"
  by pat_completeness auto
termination
  by (relation "measure (\<lambda>x. case x of
          Inl (st, node, field, val, timestamp) \<Rightarrow> 2 * size val + 1
        | Inr (Inl (st, node, field, val, timestamp)) \<Rightarrow> 2 * size val
        | Inr (Inr (st, node, field, kvs, timestamp)) \<Rightarrow>
            2 * size_list (size_prod (\<lambda>_. 0) size) kvs + 1)")
     auto

declare insert_tsdb.simps [simp del] insertCheckedObject.simps [simp del]

definition insertObject :: "db \<Rightarrow> jsval \<Rightarrow> jsval \<Rightarrow> jsval \<Rightarrow> error option \<times> db" where
  "insertObject st node val timestamp =
     (if typeof val \<noteq> ''object'' then (Some NotAnObject, st)
      else case lock st of
             Some e \<Rightarrow> (Some e, st)
           | None \<Rightarrow> insertCheckedObject st node [] val timestamp)"

section \<open>Reading rows\<close>

text \<open>
  A value read from a table, tagged with the type of the table it was read from: this
  is the pair of \<open>value\<close> and \<open>type\<close> that the readers carry around.
\<close>

datatype tsval = VString string | VNumber rat | VArray string | VDate int | VBoolean int

fun type_of :: "tsval \<Rightarrow> ts_type" where
  "type_of (VString s) = TString"
| "type_of (VNumber r) = TNumber"
| "type_of (VArray a) = TArray"
| "type_of (VDate d) = TDate"
| "type_of (VBoolean b) = TBoolean"

definition tagged :: "('v \<Rightarrow> tsval) \<Rightarrow> 'v row \<Rightarrow> tsval row" where
  "tagged f r = \<lparr>rid = rid r, rnode = rnode r, rfield = rfield r, rvalue = f (rvalue r),
                 rtimestamp = rtimestamp r, rlatest = rlatest r\<rparr>"

fun rows_of :: "db \<Rightarrow> ts_type \<Rightarrow> tsval row list" where
  "rows_of st TString = map (tagged VString) (trows (ts_string st))"
| "rows_of st TNumber = map (tagged VNumber) (trows (ts_number st))"
| "rows_of st TArray = map (tagged VArray) (trows (ts_array st))"
| "rows_of st TDate = map (tagged VDate) (trows (ts_date st))"
| "rows_of st TBoolean = map (tagged VBoolean) (trows (ts_boolean st))"

text \<open>
  The conversions of the value codec on the way out: strings and numbers as they are,
  \<open>value ? true : false\<close> for booleans, \<open>new Date(value)\<close> for dates, \<open>JSON.parse(value)\<close>
  for arrays.
\<close>

fun decode :: "tsval \<Rightarrow> jsval" where
  "decode (VString s) = JStr s"
| "decode (VNumber r) = JNum r"
| "decode (VBoolean b) = JBool (truthy (JNum (of_int b)))"
| "decode (VDate d) = JDate d"
| "decode (VArray a) = JArr a"

section \<open>Unflattening: convertToObject\<close>

text \<open>\<open>key.split('.')\<close>\<close>

fun split :: "string \<Rightarrow> string list" where
  "split [] = [[]]"
| "split (c # cs) =
     (if c = CHR ''.'' then [] # split cs
      else case split cs of [] \<Rightarrow> [[c]] | w # ws \<Rightarrow> (c # w) # ws)"

record entry =
  evalue :: tsval
  etimestamp :: int

definition leaf :: "entry \<Rightarrow> jsval" where
  "leaf e = JObj [(''value'', decode (evalue e)), (''timestamp'', JDate (etimestamp e))]"

text \<open>
  The body of the loop over the keys, for one key: walk the segments
  \<open>path[1], ..., path[length-2]\<close> from the result downwards, creating objects on
  demand, then store the leaf under the last segment. The source mutates the objects in
  place; the result tree has no sharing, so the model rebuilds the spine.

  \<open>o.hasOwnProperty(field)\<close> is a method call on \<open>o\<close>: an own property of that name
  shadows the inherited method, and calling it throws since no value in the tree is
  callable. Assigning to \<open>__proto__\<close> replaces the prototype instead of creating a
  property. A value of type \<open>object\<close> that is not a plain object can only be a date or
  an array here (the time stamp or the decoded value of a leaf).
\<close>

fun assignPath ::
  "(string \<times> jsval) list \<Rightarrow> string list \<Rightarrow> string \<Rightarrow> jsval \<Rightarrow> error + (string \<times> jsval) list" where
  "assignPath ob [] lastseg lf =
     (if lastseg = ''__proto__'' then Inl OutsideModel
      else Inr (AList.update lastseg lf ob))"
| "assignPath ob (field # rest) lastseg lf =
     (if map_of ob ''hasOwnProperty'' \<noteq> None then Inl TypeError
      else case map_of ob field of
        Some v \<Rightarrow>
          (if typeof v \<noteq> ''object'' then Inl ValueAndObject
           else case v of
                  JObj sub \<Rightarrow>
                    (case assignPath sub rest lastseg lf of
                       Inl e \<Rightarrow> Inl e
                     | Inr sub' \<Rightarrow> Inr (AList.update field (JObj sub') ob))
                | JNull \<Rightarrow> Inl TypeError
                | _ \<Rightarrow> Inl OutsideModel)
      | None \<Rightarrow>
          (if field = ''__proto__'' then Inl OutsideModel
           else case assignPath [] rest lastseg lf of
                  Inl e \<Rightarrow> Inl e
                | Inr sub' \<Rightarrow> Inr (AList.update field (JObj sub') ob)))"

fun convertKeys ::
  "(string \<times> entry) list \<Rightarrow> string list \<Rightarrow> (string \<times> jsval) list \<Rightarrow> error + (string \<times> jsval) list" where
  "convertKeys mapObject [] result = Inr result"
| "convertKeys mapObject (key # keys) result =
     (case map_of mapObject key of
        None \<Rightarrow> Inl TypeError
      | Some e \<Rightarrow>
          let path = split key in
          case assignPath result (butlast (tl path)) (last path) (leaf e) of
            Inl err \<Rightarrow> Inl err
          | Inr result' \<Rightarrow> convertKeys mapObject keys result')"

text \<open>
  \<open>mapObject\<close> is the list of its properties; \<open>Object.keys(mapObject).sort()\<close> orders
  the keys by code units, a proper prefix first.
\<close>

definition convertToObject :: "(string \<times> entry) list \<Rightarrow> error + jsval" where
  "convertToObject mapObject =
     (case convertKeys mapObject (sort (map fst mapObject)) [] of
        Inl e \<Rightarrow> Inl e
      | Inr result \<Rightarrow> Inr (JObj result))"

section \<open>Snapshot synthesis\<close>

datatype condition = TimestampAtMost int | LatestNonZero

fun holds :: "condition \<Rightarrow> 'v row \<Rightarrow> bool" where
  "holds (TimestampAtMost date_ms) r = (rtimestamp r \<le> date_ms)"
| "holds LatestNonZero r = (rlatest r \<noteq> 0)"

text \<open>
  \<open>SELECT field, value, timestamp FROM table WHERE node=... AND condition ORDER BY timestamp ASC\<close>
\<close>

definition select_asc :: "db \<Rightarrow> ts_type \<Rightarrow> jsval \<Rightarrow> condition \<Rightarrow> tsval row list" where
  "select_asc st t node cond =
     sort_key rtimestamp (filter (\<lambda>r. rnode r = node \<and> holds cond r) (rows_of st t))"

definition entry_of :: "tsval row \<Rightarrow> entry" where
  "entry_of r = \<lparr>evalue = rvalue r, etimestamp = rtimestamp r\<rparr>"

definition store_rows :: "(string \<times> entry) list \<Rightarrow> tsval row list \<Rightarrow> (string \<times> entry) list" where
  "store_rows m rows = foldl (\<lambda>m r. AList.update (rfield r) (entry_of r) m) m rows"

text \<open>
  The five queries are issued in the order of the types and answered in that order;
  each answer is written into \<open>mapLatest\<close> row by row, \<open>mapLatest[row.field] = ...\<close>.
\<close>

fun mapLatest ::
  "db \<Rightarrow> jsval \<Rightarrow> condition \<Rightarrow> ts_type list \<Rightarrow> (string \<times> entry) list \<Rightarrow> error + (string \<times> entry) list" where
  "mapLatest st node cond [] m = Inr m"
| "mapLatest st node cond (t # types) m =
     (case getTableForType st t of
        Inl e \<Rightarrow> Inl e
      | Inr table \<Rightarrow> mapLatest st node cond types (store_rows m (select_asc st t node cond)))"

definition synthesizeObjectParameterized :: "db \<Rightarrow> jsval \<Rightarrow> condition \<Rightarrow> error + jsval" where
  "synthesizeObjectParameterized st node cond =
     (if \<not> isNode node then Inl BadNode
      else case mapLatest st node cond TS_TABLES_keys [] of
             Inl e \<Rightarrow> Inl e
           | Inr m \<Rightarrow> convertToObject m)"

definition synthesizeObjectAt :: "db \<Rightarrow> jsval \<Rightarrow> jsval \<Rightarrow> error + jsval" where
  "synthesizeObjectAt st node date =
     (case lock st of
        Some e \<Rightarrow> Inl e
      | None \<Rightarrow>
          (case date of
             JDate date_ms \<Rightarrow> synthesizeObjectParameterized st node (TimestampAtMost date_ms)
           | JObj kvs \<Rightarrow>
               if map_of kvs ''getTime'' = Some JFunction then Inl OutsideModel else Inl TypeError
           | _ \<Rightarrow> Inl TypeError))"

definition synthesizeObject :: "db \<Rightarrow> jsval \<Rightarrow> error + jsval" where
  "synthesizeObject st node =
     (case lock st of
        Some e \<Rightarrow> Inl e
      | None \<Rightarrow> synthesizeObjectParameterized st node LatestNonZero)"

section \<open>Series, existence, deletion\<close>

text \<open>
  \<open>updateValueTypes\<close> turns each row of an answer into \<open>{value, timestamp}\<close> with the
  time stamp as a date and the value converted by the type of the table.
\<close>

definition updateValueTypes :: "tsval row list \<Rightarrow> jsval list" where
  "updateValueTypes rows =
     map (\<lambda>r. JObj [(''value'', decode (rvalue r)), (''timestamp'', JDate (rtimestamp r))]) rows"

text \<open>
  \<open>SELECT value, timestamp FROM table WHERE node=... AND field=... AND timestamp <= ...
  ORDER BY timestamp DESC LIMIT ...\<close>
\<close>

definition select_desc ::
  "db \<Rightarrow> ts_type \<Rightarrow> jsval \<Rightarrow> string \<Rightarrow> int \<Rightarrow> nat \<Rightarrow> tsval row list" where
  "select_desc st t node field when_ms limit =
     take limit
       (sort_key (\<lambda>r. - rtimestamp r)
          (filter (\<lambda>r. rnode r = node \<and> rfield r = field \<and> rtimestamp r \<le> when_ms)
             (rows_of st t)))"

fun getSeries_loop ::
  "db \<Rightarrow> jsval \<Rightarrow> string \<Rightarrow> int \<Rightarrow> nat \<Rightarrow> ts_type list \<Rightarrow> error + jsval list" where
  "getSeries_loop st node field when_ms limit [] = Inr []"
| "getSeries_loop st node field when_ms limit (t # types) =
     (case getTableForType st t of
        Inl e \<Rightarrow> Inl e
      | Inr table \<Rightarrow>
          let rows = select_desc st t node field when_ms limit in
          if length rows > 0 then Inr (updateValueTypes rows)
          else getSeries_loop st node field when_ms limit types)"

definition getSeries :: "db \<Rightarrow> jsval \<Rightarrow> jsval \<Rightarrow> jsval \<Rightarrow> jsval \<Rightarrow> error + jsval list" where
  "getSeries st node field when limit =
     (if \<not> isNode node then Inl BadNode
      else if \<not> Number_isInteger limit \<or> number_of limit < 1 \<or> number_of limit > 10001
        then Inl BadLimit
      else if typeof field \<noteq> ''string'' then Inl FieldNotString
      else if \<not> isDate when then Inl WhenNotDate
      else getSeries_loop st node (string_of field) (getTime when)
             (nat \<lfloor>number_of limit\<rfloor>) TS_TABLES_keys)"

text \<open>\<open>SELECT id FROM table WHERE node=... LIMIT 1\<close>\<close>

fun exists_loop :: "db \<Rightarrow> jsval \<Rightarrow> ts_type list \<Rightarrow> error + bool" where
  "exists_loop st node [] = Inr False"
| "exists_loop st node (t # types) =
     (case getTableForType st t of
        Inl e \<Rightarrow> Inl e
      | Inr table \<Rightarrow>
          let rows = take 1 (filter (\<lambda>r. rnode r = node) (rows_of st t)) in
          if length rows > 0 then Inr True else exists_loop st node types)"

definition exists :: "db \<Rightarrow> jsval \<Rightarrow> error + bool" where
  "exists st node = (if \<not> isNode node then Inl BadNode else exists_loop st node TS_TABLES_keys)"

text \<open>\<open>DELETE FROM table WHERE node=...\<close>\<close>

definition delete_rows :: "jsval \<Rightarrow> 'v tbl \<Rightarrow> 'v tbl" where
  "delete_rows node table = table\<lparr>trows := filter (\<lambda>r. rnode r \<noteq> node) (trows table)\<rparr>"

fun delete_from :: "ts_type \<Rightarrow> jsval \<Rightarrow> db \<Rightarrow> db" where
  "delete_from TString node st = st\<lparr>ts_string := delete_rows node (ts_string st)\<rparr>"
| "delete_from TNumber node st = st\<lparr>ts_number := delete_rows node (ts_number st)\<rparr>"
| "delete_from TArray node st = st\<lparr>ts_array := delete_rows node (ts_array st)\<rparr>"
| "delete_from TDate node st = st\<lparr>ts_date := delete_rows node (ts_date st)\<rparr>"
| "delete_from TBoolean node st = st\<lparr>ts_boolean := delete_rows node (ts_boolean st)\<rparr>"

fun remove_loop :: "db \<Rightarrow> jsval \<Rightarrow> ts_type list \<Rightarrow> error option \<times> db" where
  "remove_loop st node [] = (None, st)"
| "remove_loop st node (t # types) =
     (case getTableForType st t of
        Inl e \<Rightarrow> (Some e, st)
      | Inr table \<Rightarrow> remove_loop (delete_from t node st) node types)"

definition remove :: "db \<Rightarrow> jsval \<Rightarrow> jsval \<Rightarrow> error option \<times> db" where
  "remove st node sure =
     (if \<not> truthy sure then (Some NotSure, st)
      else if \<not> isNode node then (Some BadNode, st)
      else remove_loop st node TS_TABLES_keys)"

section \<open>An initialised, empty store\<close>

text \<open>
  The state after \<open>initialize('example')\<close> on an empty database: the prefix is bound and
  the five tables exist, empty, with the AUTO_INCREMENT start of \<open>createTable\<close>.
\<close>

definition example_db :: db where
  "example_db =
     \<lparr>tsdbTablePrefix = Some ''example'',
      ts_string = \<lparr>trows = [], tnext = 26264\<rparr>,
      ts_number = \<lparr>trows = [], tnext = 26264\<rparr>,
      ts_array = \<lparr>trows = [], tnext = 26264\<rparr>,
      ts_date = \<lparr>trows = [], tnext = 26264\<rparr>,
      ts_boolean = \<lparr>trows = [], tnext = 26264\<rparr>\<rparr>"

text \<open>
  The store after three writes of a date under \<open>.d\<close> of node 1, at the times
  \<open>10 < 20 < 30\<close>, and after the same three writes of a number.
\<close>

definition three_dates :: db where
  "three_dates =
     snd (insertObject
       (snd (insertObject
         (snd (insertObject example_db (JNum 1) (JObj [(''d'', JDate 5)]) (JDate 10)))
         (JNum 1) (JObj [(''d'', JDate 6)]) (JDate 20)))
       (JNum 1) (JObj [(''d'', JDate 7)]) (JDate 30))"

definition three_numbers :: db where
  "three_numbers =
     snd (insertObject
       (snd (insertObject
         (snd (insertObject example_db (JNum 1) (JObj [(''d'', JNum 5)]) (JDate 10)))
         (JNum 1) (JObj [(''d'', JNum 6)]) (JDate 20)))
       (JNum 1) (JObj [(''d'', JNum 7)]) (JDate 30))"

section \<open>Well-formed field paths\<close>




section \<open>Notions used to state the properties of the readers\<close>

text \<open>
  The rows of a table that a series query matches, and the first table, in the order
  of the types, in which the query matches a row.
\<close>

definition matching :: "db \<Rightarrow> ts_type \<Rightarrow> jsval \<Rightarrow> string \<Rightarrow> int \<Rightarrow> tsval row list" where
  "matching st t node field when_ms =
     filter (\<lambda>r. rnode r = node \<and> rfield r = field \<and> rtimestamp r \<le> when_ms) (rows_of st t)"

definition first_partition :: "db \<Rightarrow> jsval \<Rightarrow> string \<Rightarrow> int \<Rightarrow> ts_type option" where
  "first_partition st node field when_ms =
     find (\<lambda>t. matching st t node field when_ms \<noteq> []) TS_TABLES_keys"

text \<open>
  The rows of a snapshot query for one path, in the order of the answer; the tables
  whose answer has a row for the path, in the order of the types; and the mapping that
  the five answers leave behind.
\<close>

definition rows_for :: "db \<Rightarrow> ts_type \<Rightarrow> jsval \<Rightarrow> condition \<Rightarrow> string \<Rightarrow> tsval row list" where
  "rows_for st t node cond path = filter (\<lambda>r. rfield r = path) (select_asc st t node cond)"

definition partitions_with :: "db \<Rightarrow> jsval \<Rightarrow> condition \<Rightarrow> string \<Rightarrow> ts_type list" where
  "partitions_with st node cond path =
     filter (\<lambda>t. rows_for st t node cond path \<noteq> []) TS_TABLES_keys"

definition merged :: "db \<Rightarrow> jsval \<Rightarrow> condition \<Rightarrow> (string \<times> entry) list" where
  "merged st node cond =
     foldl (\<lambda>m t. store_rows m (select_asc st t node cond)) [] TS_TABLES_keys"

text \<open>
  Two stores for the examples: the same field written first as a number at time 10
  and then as a string at time 20, and the same field written twice at time 10.
\<close>

definition type_changed :: db where
  "type_changed =
     snd (insertObject
       (snd (insertObject example_db (JNum 1) (JObj [(''a'', JNum 1)]) (JDate 10)))
       (JNum 1) (JObj [(''a'', JStr ''new'')]) (JDate 20))"

definition same_instant :: db where
  "same_instant =
     snd (insertObject
       (snd (insertObject example_db (JNum 1) (JObj [(''a'', JStr ''x'')]) (JDate 10)))
       (JNum 1) (JObj [(''a'', JStr ''y'')]) (JDate 10))"

section \<open>Notions used to state the round trip\<close>


definition pathstr :: "string list \<Rightarrow> string" where
  "pathstr segs = concat (map (\<lambda>k. CHR ''.'' # k) segs)"




text \<open>
  A value with every object read as a map from attribute names to values: two values
  are the same up to the order of attributes when they are equal as such trees.
\<close>

datatype utree = ULeaf jsval | UNode "string \<Rightarrow> utree option"

fun unordered :: "jsval \<Rightarrow> utree"
and unordered_props :: "(string \<times> jsval) list \<Rightarrow> string \<Rightarrow> utree option" where
  "unordered (JObj kvs) = UNode (unordered_props kvs)"
| "unordered v = ULeaf v"
| "unordered_props [] = Map.empty"
| "unordered_props ((k, v) # kvs) = (unordered_props kvs)(k \<mapsto> unordered v)"

section \<open>Notions used in the proof of the round trip\<close>


text \<open>
  Storing a leaf under a list of keys in a tree of maps, creating the nodes on the way,
  and the condition under which the walk of \<open>assignPath\<close> along a list of keys meets
  only plain objects without an attribute \<open>hasOwnProperty\<close>.
\<close>

fun children :: "utree \<Rightarrow> string \<Rightarrow> utree option" where
  "children (UNode m) = m"
| "children (ULeaf v) = Map.empty"

fun fins :: "string list \<Rightarrow> utree \<Rightarrow> utree \<Rightarrow> utree" where
  "fins [] lf tr = lf"
| "fins (k # ks) lf tr =
     UNode ((children tr)(k \<mapsto>
        fins ks lf (case children tr k of None \<Rightarrow> UNode Map.empty | Some sub \<Rightarrow> sub)))"

fun fwalk_ok :: "utree \<Rightarrow> string list \<Rightarrow> bool" where
  "fwalk_ok tr [] = True"
| "fwalk_ok (ULeaf v) (k # ks) = False"
| "fwalk_ok (UNode m) (k # ks) =
     (m ''hasOwnProperty'' = None \<and>
      (case m k of
         None \<Rightarrow> True
       | Some (ULeaf v) \<Rightarrow> False
       | Some (UNode m') \<Rightarrow> fwalk_ok (UNode m') ks))"


definition new_obs ::
  "string \<Rightarrow> int \<Rightarrow> ts_type \<Rightarrow> (string list \<times> tsval) list \<Rightarrow> (string \<times> tsval \<times> int \<times> nat) list" where
  "new_obs field ts t xs =
     map (\<lambda>(segs, tv). (field @ pathstr segs, tv, ts, 1))
       (filter (\<lambda>(segs, tv). type_of tv = t) xs)"




text \<open>
  The tree of a stored leaf, the leaves of a value as trees, and the two ways of
  building a tree: from leaves with their key lists, as flattening sees them, and from
  the field paths of a mapping, as \<open>convertKeys\<close> sees them.
\<close>

definition put_leaf :: "string list \<times> utree \<Rightarrow> utree \<Rightarrow> utree" where
  "put_leaf = (\<lambda>(segs, lf). fins segs lf)"

definition leaf_tree :: "int \<Rightarrow> tsval \<Rightarrow> utree" where
  "leaf_tree ts tv = unordered (leaf \<lparr>evalue = tv, etimestamp = ts\<rparr>)"

definition leaf_trees :: "int \<Rightarrow> (string list \<times> tsval) list \<Rightarrow> (string list \<times> utree) list" where
  "leaf_trees ts xs = map (\<lambda>(segs, tv). (segs, leaf_tree ts tv)) xs"


text \<open>
  An object with a leaf of every kind and two levels of nesting, its attributes not in
  alphabetical order.
\<close>

definition sample_object :: "(string \<times> jsval) list" where
  "sample_object =
     [(''sub'', JObj [(''y'', JObj [(''z'', JBool False)]), (''x'', JNum 2)]),
      (''b'', JStr ''Hello''), (''a'', JNum 1), (''e'', JArr ''[1,2,3]''),
      (''d'', JDate 3), (''c'', JBool True)]"

section \<open>Properties\<close>

lemmas eval_defs =
  insert_tsdb.simps insertCheckedObject.simps
  insertObject_def lock_def getTableForType_def isNode_def settled_def
  insertCheckedNumber_def insertCheckedString_def insertCheckedBoolean_def
  insertCheckedDate_def insertCheckedArray_def
  checkIsLatest_def morerecents_def sql_insert_def setIsLatest_def
  MAX_FIELD_SIZE_def MAX_STRING_SIZE_def MAX_ARRAY_SIZE_def MAX_ID_SIZE_def
  example_db_def TS_TABLES_keys_def

subsection \<open>The latest marker\<close>

lemma three_numbers_rows:
  "map (\<lambda>r. (rtimestamp r, rlatest r)) (trows (ts_number three_numbers))
     = [(10, 0), (20, 0), (30, 1)]"
  by (simp add: three_numbers_def eval_defs)

text \<open>
  Claim C1. After three sequential writes for the same node and field with increasing
  time stamps, exactly one observation should be marked latest, the one with the last
  time stamp, for values of every type including dates. The date writer calls
  \<open>setIsLatest\<close> without its last argument, so no earlier observation is ever demoted:
  after the three writes of a date all three observations are marked latest, where the
  same writes of a number leave the mark on the last one only (\<open>three_numbers_rows\<close>).
\<close>

theorem date_writes_all_latest:
  "map (\<lambda>r. (rtimestamp r, rlatest r)) (trows (ts_date three_dates))
     = [(10, 1), (20, 1), (30, 1)]"
  by (simp add: three_dates_def eval_defs)

subsection \<open>Unsupported values\<close>

lemma getTableForType_not_unsupported: "getTableForType st t \<noteq> Inl UnsupportedValue"
  by (simp add: getTableForType_def split: option.splits)

lemma writers_not_unsupported:
  "insertCheckedNumber st node field r ms \<noteq> Inl UnsupportedValue"
  "insertCheckedString st node field s ms \<noteq> Inl UnsupportedValue"
  "insertCheckedBoolean st node field b ms \<noteq> Inl UnsupportedValue"
  "insertCheckedDate st node field d ms \<noteq> Inl UnsupportedValue"
  "insertCheckedArray st node field a ms \<noteq> Inl UnsupportedValue"
  using getTableForType_not_unsupported [of st]
  by (auto simp add: insertCheckedNumber_def insertCheckedString_def insertCheckedBoolean_def
      insertCheckedDate_def insertCheckedArray_def Let_def split: sum.splits prod.splits)

lemma settled_not_unsupported:
  "r \<noteq> Inl UnsupportedValue \<Longrightarrow> fst (settled st r) \<noteq> Some UnsupportedValue"
  by (cases r) (auto simp add: settled_def)

lemma loose_eq_object_not_unsupported: "loose_eq_object val \<noteq> Inl UnsupportedValue"
  by (cases val) (auto split: option.splits)

lemma insert_tsdb_never_unsupported:
  "fst (insert_tsdb st node field val timestamp) \<noteq> Some UnsupportedValue"
  using loose_eq_object_not_unsupported [of val]
  by (subst insert_tsdb.simps)
     (auto simp add: settled_not_unsupported writers_not_unsupported split: sum.splits)

text \<open>
  Claim C4. A value of unsupported shape should fail with the unsupported-type error
  and a non-finite number should be rejected. The last test of the dispatch is
  \<open>typeof(value == 'object')\<close>, the type name of a boolean, which is a non-empty string:
  the branch that throws is never taken (\<open>insert_tsdb_never_unsupported\<close>). A
  non-finite number, \<open>undefined\<close> and a function are handed to \<open>insertCheckedObject\<close>,
  which is not awaited: nothing is written and no error is reported.
\<close>

theorem unsupported_values_accepted:
  "insertObject example_db (JNum 1)
      (JObj [(''a'', JNaN), (''b'', JInfinity), (''c'', JUndefined), (''d'', JFunction)])
      (JDate 10)
     = (None, example_db)"
  by (simp add: eval_defs)

subsection \<open>Leaf and interior node at one path\<close>

text \<open>
  Claim C3. A mapping in which \<open>.a\<close> is a leaf and also a prefix of \<open>.a.b\<close> should
  be refused. The test of the source is \<open>typeof(o[field]) !== 'object'\<close>, and a leaf
  is itself an object \<open>{value, timestamp}\<close>: the walk descends into the leaf and
  stores \<open>b\<close> inside it.
\<close>

theorem leaf_and_prefix_accepted:
  "convertToObject
     [(''.a'', \<lparr>evalue = VNumber 1, etimestamp = 10\<rparr>),
      (''.a.b'', \<lparr>evalue = VNumber 2, etimestamp = 10\<rparr>)]
   = Inr (JObj [(''a'', JObj [(''value'', JNum 1), (''timestamp'', JDate 10),
                   (''b'', JObj [(''value'', JNum 2), (''timestamp'', JDate 10)])])])"
  by (simp add: convertToObject_def leaf_def)

subsection \<open>The limit of a series\<close>

text \<open>
  Claim C7. The limit should be refused above 10000. The test of the source is
  \<open>limit > 10001\<close>, under the message "less than 10001": 10001 is accepted.
\<close>

theorem limit_10001_accepted:
  "getSeries example_db (JNum 1) (JStr ''.a'') (JDate 0) (JNum 10001) = Inr []"
  by (simp add: getSeries_def select_desc_def eval_defs)

theorem limit_10001_accepted_witness:
  "getSeries example_db (JNum 1) (JStr ''.a'') (JDate 0) (JNum 10001) \<noteq> Inl BadLimit"
  using limit_10001_accepted by simp

subsection \<open>Inserting null\<close>

text \<open>
  Claim C9. \<open>insertObject(node, null, timestamp)\<close> passes the test "inserted object is
  not an object", since \<open>typeof null\<close> is \<open>object\<close>; it fails afterwards, with the
  run-time error of \<open>Object.keys(null)\<close> (or, on a store that was never initialised,
  when \<open>lock\<close> resolves the table names), and never with the validation error.
\<close>

theorem insertObject_null:
  "insertObject st node JNull timestamp
     = (Some (if lock st = None then TypeError else NotInitialized), st)
   \<and> fst (insertObject st node JNull timestamp) \<noteq> Some NotAnObject"
  by (simp add: insertObject_def lock_def getTableForType_def insertCheckedObject.simps
      split: option.splits)

subsection \<open>Deletion\<close>

lemma lock_None_iff: "lock st = None \<longleftrightarrow> (\<exists>p. tsdbTablePrefix st = Some p \<and> p \<noteq> [])"
  by (auto simp add: lock_def getTableForType_def split: option.splits)

lemma getTableForType_bound:
  "lock st = None \<Longrightarrow> \<exists>name. getTableForType st t = Inr name"
  by (auto simp add: lock_None_iff getTableForType_def)

lemma getTableForType_delete_from [simp]:
  "getTableForType (delete_from t' node st) t = getTableForType st t"
  by (cases t') (simp_all add: getTableForType_def)

lemma lock_delete_from [simp]: "lock (delete_from t' node st) = lock st"
  by (simp add: lock_def)

lemma tagged_simps [simp]:
  "rnode (tagged f r) = rnode r" "rfield (tagged f r) = rfield r"
  "rtimestamp (tagged f r) = rtimestamp r" "rlatest (tagged f r) = rlatest r"
  "rid (tagged f r) = rid r" "rvalue (tagged f r) = f (rvalue r)"
  by (simp_all add: tagged_def)

lemma filter_map_tagged:
  "filter (\<lambda>r. rnode r \<noteq> node) (map (tagged f) rows)
     = map (tagged f) (filter (\<lambda>r. rnode r \<noteq> node) rows)"
  by (induction rows) simp_all

lemma rows_of_delete_from:
  "rows_of (delete_from t' node st) t =
     (if t = t' then filter (\<lambda>r. rnode r \<noteq> node) (rows_of st t) else rows_of st t)"
  by (cases t'; cases t) (simp_all add: delete_rows_def filter_map_tagged)

lemma remove_loop_gen:
  "lock st = None \<Longrightarrow>
     fst (remove_loop st node types) = None \<and>
     lock (snd (remove_loop st node types)) = None \<and>
     rows_of (snd (remove_loop st node types)) t
       = (if t \<in> set types then filter (\<lambda>r. rnode r \<noteq> node) (rows_of st t)
          else rows_of st t)"
proof (induction types arbitrary: st)
  case Nil
  then show ?case by simp
next
  case (Cons t' types)
  obtain name where n: "getTableForType st t' = Inr name"
    using getTableForType_bound [OF Cons.prems] by blast
  have l: "lock (delete_from t' node st) = None"
    using Cons.prems by simp
  show ?case
    using Cons.IH [OF l] n
    by (simp add: rows_of_delete_from del: delete_from.simps)
qed

lemma remove_loop_all:
  assumes "lock st = None"
  shows "fst (remove_loop st node TS_TABLES_keys) = None"
    and "lock (snd (remove_loop st node TS_TABLES_keys)) = None"
    and "rows_of (snd (remove_loop st node TS_TABLES_keys)) t
           = filter (\<lambda>r. rnode r \<noteq> node) (rows_of st t)"
proof -
  have "t \<in> set TS_TABLES_keys" by (cases t) (simp_all add: TS_TABLES_keys_def)
  then show "fst (remove_loop st node TS_TABLES_keys) = None"
    and "lock (snd (remove_loop st node TS_TABLES_keys)) = None"
    and "rows_of (snd (remove_loop st node TS_TABLES_keys)) t
           = filter (\<lambda>r. rnode r \<noteq> node) (rows_of st t)"
    using remove_loop_gen [OF assms, of node TS_TABLES_keys t] by simp_all
qed

lemma exists_loop_none:
  assumes "lock st = None" "\<And>t. \<forall>r \<in> set (rows_of st t). rnode r \<noteq> node"
  shows "exists_loop st node types = Inr False"
proof (induction types)
  case Nil
  show ?case by simp
next
  case (Cons t types)
  obtain name where "getTableForType st t = Inr name"
    using getTableForType_bound [OF assms(1)] by blast
  moreover have "filter (\<lambda>r. rnode r = node) (rows_of st t) = []"
    using assms(2) [of t] by (simp add: filter_empty_conv)
  ultimately show ?case using Cons by simp
qed

lemma mapLatest_none:
  assumes "lock st = None" "\<And>t. \<forall>r \<in> set (rows_of st t). rnode r \<noteq> node"
  shows "mapLatest st node cond types m = Inr m"
proof (induction types)
  case Nil
  show ?case by simp
next
  case (Cons t types)
  obtain name where "getTableForType st t = Inr name"
    using getTableForType_bound [OF assms(1)] by blast
  moreover have "filter (\<lambda>r. rnode r = node \<and> holds cond r) (rows_of st t) = []"
    using assms(2) [of t] by (simp add: filter_empty_conv)
  ultimately show ?case using Cons by (simp add: select_asc_def store_rows_def)
qed

text \<open>
  Claim C8, as amended. \<open>remove\<close> tests \<open>!sure\<close>: it fails with the confirmation
  error, deleting nothing, exactly when the flag is falsy (\<open>false\<close>, \<open>undefined\<close>, \<open>null\<close>,
  \<open>0\<close>, \<open>NaN\<close>, the empty string); every truthy flag confirms. After a confirmed removal
  of a valid node on an initialised store, each table holds the rows it held for the
  other nodes and none for this node, \<open>exists\<close> answers false and \<open>synthesizeObject\<close>
  yields the empty object.
\<close>

theorem remove_deletes:
  "(\<not> truthy sure \<longrightarrow> remove st node sure = (Some NotSure, st)) \<and>
   (truthy sure \<and> isNode node \<and> lock st = None \<longrightarrow>
      fst (remove st node sure) = None \<and>
      (\<forall>t. rows_of (snd (remove st node sure)) t
              = filter (\<lambda>r. rnode r \<noteq> node) (rows_of st t)) \<and>
      exists (snd (remove st node sure)) node = Inr False \<and>
      synthesizeObject (snd (remove st node sure)) node = Inr (JObj []))"
proof (intro conjI impI)
  assume "\<not> truthy sure"
  then show "remove st node sure = (Some NotSure, st)" by (simp add: remove_def)
next
  assume a: "truthy sure \<and> isNode node \<and> lock st = None"
  let ?st = "snd (remove st node sure)"
  have r: "remove st node sure = remove_loop st node TS_TABLES_keys"
    using a by (simp add: remove_def)
  show "fst (remove st node sure) = None"
    using a by (simp add: r remove_loop_all)
  show rows: "\<forall>t. rows_of ?st t = filter (\<lambda>r. rnode r \<noteq> node) (rows_of st t)"
    using a by (simp add: r remove_loop_all)
  have l: "lock ?st = None" using a by (simp add: r remove_loop_all)
  have none: "\<And>t. \<forall>r \<in> set (rows_of ?st t). rnode r \<noteq> node"
    using rows by simp
  show "exists ?st node = Inr False"
    using a exists_loop_none [OF l none] by (simp add: exists_def)
  show "synthesizeObject ?st node = Inr (JObj [])"
    using a mapLatest_none [OF l none, of LatestNonZero TS_TABLES_keys "[]"]
    by (simp add: synthesizeObject_def synthesizeObjectParameterized_def l convertToObject_def)
qed

lemma three_numbers_value:
  "three_numbers = example_db\<lparr>ts_number :=
      \<lparr>trows = [\<lparr>rid = 26264, rnode = JNum 1, rfield = ''.d'', rvalue = 5, rtimestamp = 10, rlatest = 0\<rparr>,
                 \<lparr>rid = 26265, rnode = JNum 1, rfield = ''.d'', rvalue = 6, rtimestamp = 20, rlatest = 0\<rparr>,
                 \<lparr>rid = 26266, rnode = JNum 1, rfield = ''.d'', rvalue = 7, rtimestamp = 30, rlatest = 1\<rparr>],
       tnext = 26267\<rparr>\<rparr>"
  by (simp add: three_numbers_def eval_defs)

theorem remove_deletes_witness:
  "truthy (JBool True) \<and> isNode (JNum 1) \<and> lock three_numbers = None \<and>
   rows_of three_numbers TNumber \<noteq> [] \<and>
   fst (remove three_numbers (JNum 1) (JBool True)) = None \<and>
   rows_of (snd (remove three_numbers (JNum 1) (JBool True))) TNumber = [] \<and>
   exists (snd (remove three_numbers (JNum 1) (JBool True))) (JNum 1) = Inr False \<and>
   synthesizeObject (snd (remove three_numbers (JNum 1) (JBool True))) (JNum 1) = Inr (JObj []) \<and>
   \<not> truthy (JBool False) \<and>
   remove three_numbers (JNum 1) (JBool False) = (Some NotSure, three_numbers)"
proof -
  have h: "truthy (JBool True) \<and> isNode (JNum 1) \<and> lock three_numbers = None"
    by (simp add: three_numbers_value example_db_def isNode_def lock_def getTableForType_def)
  have rows: "rows_of three_numbers TNumber \<noteq> []"
    "filter (\<lambda>r. rnode r \<noteq> JNum 1) (rows_of three_numbers TNumber) = []"
    by (simp_all add: three_numbers_value example_db_def)
  have f: "\<not> truthy (JBool False)" by simp
  show ?thesis
    using remove_deletes [of "JBool True" three_numbers "JNum 1"]
          remove_deletes [of "JBool False" three_numbers "JNum 1"] h rows f
    by metis
qed

text \<open>
  The claim as stated (failure whenever the flag is not \<open>true\<close>) does not hold: the string
  \<open>'no'\<close> is not \<open>true\<close>, and it confirms the removal.
\<close>

theorem remove_truthy_counterexample:
  "JStr ''no'' \<noteq> JBool True \<and>
   fst (remove three_numbers (JNum 1) (JStr ''no'')) = None \<and>
   rows_of three_numbers TNumber \<noteq> [] \<and>
   rows_of (snd (remove three_numbers (JNum 1) (JStr ''no''))) TNumber = []"
  by (simp add: three_numbers_value example_db_def remove_def isNode_def TS_TABLES_keys_def
      getTableForType_def delete_rows_def)

subsection \<open>Stored field paths\<close>
















subsection \<open>Series\<close>

lemma select_desc_matching:
  "select_desc st t node field w n
     = take n (sort_key (\<lambda>r. - rtimestamp r) (matching st t node field w))"
  by (simp add: select_desc_def matching_def)

lemma sort_key_Nil_iff: "sort_key f xs = [] \<longleftrightarrow> xs = []"
  using length_sort [of f xs] by (metis length_0_conv)

lemma select_desc_empty_iff:
  "0 < n \<Longrightarrow> select_desc st t node field w n = [] \<longleftrightarrow> matching st t node field w = []"
  by (auto simp add: select_desc_matching sort_key_Nil_iff)

lemma getSeries_loop_first:
  assumes "lock st = None" "0 < n"
  shows "getSeries_loop st node field w n types
           = Inr (updateValueTypes
                (case find (\<lambda>t. matching st t node field w \<noteq> []) types of
                   None \<Rightarrow> []
                 | Some t \<Rightarrow> select_desc st t node field w n))"
proof (induction types)
  case Nil
  show ?case by (simp add: updateValueTypes_def)
next
  case (Cons t types)
  obtain name where "getTableForType st t = Inr name"
    using getTableForType_bound [OF assms(1)] by blast
  then show ?case
    using Cons select_desc_empty_iff [OF assms(2), of st t node field w]
    by (simp add: Let_def)
qed

lemma select_desc_length:
  "length (select_desc st t node field w n) = min n (length (matching st t node field w))"
  by (simp add: select_desc_matching min.commute)

lemma select_desc_subset:
  "set (select_desc st t node field w n) \<subseteq> set (matching st t node field w)"
  using set_take_subset [of n "sort_key (\<lambda>r. - rtimestamp r) (matching st t node field w)"]
  by (simp add: select_desc_matching)

lemma sorted_desc:
  "sorted_wrt (\<lambda>a b. rtimestamp b \<le> rtimestamp a) (sort_key (\<lambda>r. - rtimestamp r) rows)"
  using sorted_sort_key [of "\<lambda>r. - rtimestamp r" rows]
  by (simp add: sorted_map)

lemma select_desc_sorted:
  "sorted_wrt (\<lambda>a b. rtimestamp b \<le> rtimestamp a) (select_desc st t node field w n)"
  by (simp add: select_desc_matching sorted_desc)

lemma select_desc_most_recent:
  assumes "a \<in> set (select_desc st t node field w n)"
    and "b \<in> set (matching st t node field w)"
    and "b \<notin> set (select_desc st t node field w n)"
  shows "rtimestamp b \<le> rtimestamp a"
proof -
  let ?s = "sort_key (\<lambda>r. - rtimestamp r) (matching st t node field w)"
  have s: "sorted_wrt (\<lambda>a b. rtimestamp b \<le> rtimestamp a) (take n ?s @ drop n ?s)"
    by (simp add: sorted_desc)
  have "b \<in> set (take n ?s @ drop n ?s)" using assms(2) by simp
  then have "b \<in> set (drop n ?s)"
    using assms(3) unfolding select_desc_matching set_append by blast
  moreover have "a \<in> set (take n ?s)" using assms(1) by (simp add: select_desc_matching)
  ultimately show ?thesis using s unfolding sorted_wrt_append by blast
qed

text \<open>
  Claim C6, as amended. For a valid node, an integer limit from 1 to 10001, a string
  field and a date, on an initialised store, \<open>getSeries\<close> answers from the first table,
  in the order string, number, array, date, boolean, that has a row for the node and
  the field at or before the instant: at most \<open>limit\<close> rows, the most recent ones, by
  non-increasing time stamp (equal time stamps may follow each other), none after the
  instant, each decoded by the codec of the table; and the empty list when no table has
  such a row.
\<close>

theorem getSeries_series:
  assumes "isNode node" and "Number_isInteger (JNum l)" and "1 \<le> l" and "l \<le> 10001"
    and "lock st = None"
  shows
   "let rows = (case first_partition st node field w of
                  None \<Rightarrow> []
                | Some t \<Rightarrow> select_desc st t node field w (nat \<lfloor>l\<rfloor>))
    in getSeries st node (JStr field) (JDate w) (JNum l) = Inr (updateValueTypes rows) \<and>
       length rows \<le> nat \<lfloor>l\<rfloor> \<and>
       sorted_wrt (\<lambda>a b. rtimestamp b \<le> rtimestamp a) rows \<and>
       (\<forall>r \<in> set rows. rnode r = node \<and> rfield r = field \<and> rtimestamp r \<le> w) \<and>
       (\<forall>t. first_partition st node field w = Some t \<longrightarrow>
            rows \<noteq> [] \<and> set rows \<subseteq> set (rows_of st t) \<and>
            length rows = min (nat \<lfloor>l\<rfloor>) (length (matching st t node field w)) \<and>
            (\<forall>a \<in> set rows. \<forall>b \<in> set (matching st t node field w).
                b \<notin> set rows \<longrightarrow> rtimestamp b \<le> rtimestamp a))"
proof -
  have n: "0 < nat \<lfloor>l\<rfloor>" using assms(3) by (simp add: le_floor_iff)
  have g: "getSeries st node (JStr field) (JDate w) (JNum l)
             = getSeries_loop st node field w (nat \<lfloor>l\<rfloor>) TS_TABLES_keys"
    using assms by (simp add: getSeries_def)
  show ?thesis
  proof (cases "first_partition st node field w")
    case None
    then show ?thesis
      using g getSeries_loop_first [OF assms(5) n, of node field w TS_TABLES_keys]
      by (simp add: first_partition_def)
  next
    case (Some t)
    then have m: "matching st t node field w \<noteq> []"
      by (auto simp add: first_partition_def find_Some_iff)
    have sub: "set (matching st t node field w) \<subseteq> set (rows_of st t)"
      by (auto simp add: matching_def)
    have props: "\<forall>r \<in> set (select_desc st t node field w (nat \<lfloor>l\<rfloor>)).
                    rnode r = node \<and> rfield r = field \<and> rtimestamp r \<le> w"
      using select_desc_subset [of st t node field w "nat \<lfloor>l\<rfloor>"]
      by (auto simp add: matching_def)
    show ?thesis
      using Some g getSeries_loop_first [OF assms(5) n, of node field w TS_TABLES_keys]
        select_desc_length [of st t node field w "nat \<lfloor>l\<rfloor>"]
        select_desc_subset [of st t node field w "nat \<lfloor>l\<rfloor>"]
        select_desc_sorted [of st t node field w "nat \<lfloor>l\<rfloor>"]
        select_desc_empty_iff [OF n, of st t node field w] m sub props
        select_desc_most_recent [of _ st t node field w "nat \<lfloor>l\<rfloor>"]
      by (auto simp add: first_partition_def Let_def)
  qed
qed

lemma same_instant_value:
  "same_instant = example_db\<lparr>ts_string :=
      \<lparr>trows = [\<lparr>rid = 26264, rnode = JNum 1, rfield = ''.a'', rvalue = ''x'', rtimestamp = 10, rlatest = 0\<rparr>,
                 \<lparr>rid = 26265, rnode = JNum 1, rfield = ''.a'', rvalue = ''y'', rtimestamp = 10, rlatest = 1\<rparr>],
       tnext = 26266\<rparr>\<rparr>"
  by (simp add: same_instant_def eval_defs)

text \<open>
  The order is not strict: the store accepts two observations of one field with the
  same time stamp, and the series returns both.
\<close>

theorem series_equal_timestamps:
  "getSeries same_instant (JNum 1) (JStr ''.a'') (JDate 10) (JNum 5)
     = Inr [JObj [(''value'', JStr ''x''), (''timestamp'', JDate 10)],
            JObj [(''value'', JStr ''y''), (''timestamp'', JDate 10)]] \<and>
   \<not> sorted_wrt (\<lambda>a b. rtimestamp b < rtimestamp a)
         (select_desc same_instant TString (JNum 1) ''.a'' 10 5)"
  by (simp add: same_instant_value example_db_def getSeries_def isNode_def
      TS_TABLES_keys_def getTableForType_def select_desc_def updateValueTypes_def tagged_def)

theorem getSeries_series_witness:
  "isNode (JNum 1) \<and> Number_isInteger (JNum 2) \<and> lock three_numbers = None \<and>
   first_partition three_numbers (JNum 1) ''.d'' 25 = Some TNumber \<and>
   getSeries three_numbers (JNum 1) (JStr ''.d'') (JDate 25) (JNum 2)
     = Inr [JObj [(''value'', JNum 6), (''timestamp'', JDate 20)],
            JObj [(''value'', JNum 5), (''timestamp'', JDate 10)]]"
proof -
  have h: "isNode (JNum 1)" "Number_isInteger (JNum 2)" "(1::rat) \<le> 2" "(2::rat) \<le> 10001"
    "lock three_numbers = None"
    by (simp_all add: three_numbers_value example_db_def isNode_def lock_def getTableForType_def)
  have f: "first_partition three_numbers (JNum 1) ''.d'' 25 = Some TNumber"
    by (simp add: three_numbers_value example_db_def first_partition_def matching_def
        TS_TABLES_keys_def tagged_def)
  have r: "updateValueTypes (select_desc three_numbers TNumber (JNum 1) ''.d'' 25 (nat \<lfloor>2::rat\<rfloor>))
             = [JObj [(''value'', JNum 6), (''timestamp'', JDate 20)],
                JObj [(''value'', JNum 5), (''timestamp'', JDate 10)]]"
    by (simp add: three_numbers_value example_db_def select_desc_def updateValueTypes_def
        tagged_def)
  have "getSeries three_numbers (JNum 1) (JStr ''.d'') (JDate 25) (JNum 2)
          = Inr (updateValueTypes (select_desc three_numbers TNumber (JNum 1) ''.d'' 25 (nat \<lfloor>2::rat\<rfloor>)))"
    using getSeries_series [OF h, of "''.d''" 25] f by (simp add: Let_def)
  then show ?thesis using h f r by simp
qed

subsection \<open>Merging the answers of the tables\<close>

lemma store_rows_Cons:
  "store_rows m (r # rows) = store_rows (AList.update (rfield r) (entry_of r) m) rows"
  by (simp add: store_rows_def)

lemma map_of_store_rows:
  "map_of (store_rows m rows) p =
     (case filter (\<lambda>r. rfield r = p) rows of
        [] \<Rightarrow> map_of m p
      | rs \<Rightarrow> Some (entry_of (last rs)))"
proof (induction rows arbitrary: m)
  case Nil
  show ?case by (simp add: store_rows_def)
next
  case (Cons r rows)
  show ?case
    by (simp add: store_rows_Cons Cons.IH update_conv' split: list.splits)
qed

lemma mapLatest_fold:
  "lock st = None \<Longrightarrow>
     mapLatest st node cond types m
       = Inr (foldl (\<lambda>m t. store_rows m (select_asc st t node cond)) m types)"
proof (induction types arbitrary: m)
  case Nil
  show ?case by simp
next
  case (Cons t types)
  obtain name where "getTableForType st t = Inr name"
    using getTableForType_bound [OF Cons.prems] by blast
  then show ?case using Cons by simp
qed

lemma map_of_fold_store:
  "map_of (foldl (\<lambda>m t. store_rows m (select_asc st t node cond)) m types) p =
     (case filter (\<lambda>t. rows_for st t node cond p \<noteq> []) types of
        [] \<Rightarrow> map_of m p
      | ts \<Rightarrow> Some (entry_of (last (rows_for st (last ts) node cond p))))"
proof (induction types arbitrary: m)
  case Nil
  show ?case by simp
next
  case (Cons t types)
  show ?case
    by (simp add: Cons.IH map_of_store_rows rows_for_def split: list.splits)
qed

lemma sorted_last_max:
  "sorted (map f xs) \<Longrightarrow> x \<in> set xs \<Longrightarrow> f x \<le> f (last xs)"
  by (induction xs) auto

lemma rows_for_sorted: "sorted (map rtimestamp (rows_for st t node cond p))"
  by (simp add: rows_for_def select_asc_def sorted_filter)

lemma rows_for_last_greatest:
  "r \<in> set (rows_for st t node cond p) \<Longrightarrow>
     rtimestamp r \<le> rtimestamp (last (rows_for st t node cond p))"
  using sorted_last_max [OF rows_for_sorted] by blast

lemma rows_for_set:
  "set (rows_for st t node cond p)
     = {r \<in> set (rows_of st t). rnode r = node \<and> holds cond r \<and> rfield r = p}"
  by (auto simp add: rows_for_def select_asc_def)

text \<open>
  Claim C2, as amended. For a valid node on an initialised store, snapshot synthesis
  unflattens one mapping built from the answers of the five tables, taken in the order
  string, number, array, date, boolean. A path is in the mapping exactly when some
  answer has a row for it, and it is mapped to a row of the last table, in that order,
  whose answer has a row for it: the one with the greatest time stamp among that
  table's matching rows for the path. Rows of earlier tables for the path are
  overwritten whatever their time stamps.
\<close>

theorem synthesis_last_partition_wins:
  assumes "isNode node" and "lock st = None"
  shows
    "synthesizeObjectParameterized st node cond = convertToObject (merged st node cond) \<and>
     mapLatest st node cond TS_TABLES_keys [] = Inr (merged st node cond) \<and>
     (\<forall>p. partitions_with st node cond p = [] \<longrightarrow> map_of (merged st node cond) p = None) \<and>
     (\<forall>p. partitions_with st node cond p \<noteq> [] \<longrightarrow>
        (let t = last (partitions_with st node cond p);
             row = last (rows_for st t node cond p)
         in map_of (merged st node cond) p = Some (entry_of row) \<and>
            row \<in> set (rows_of st t) \<and> rnode row = node \<and> holds cond row \<and> rfield row = p \<and>
            (\<forall>r \<in> set (rows_of st t).
               rnode r = node \<and> holds cond r \<and> rfield r = p \<longrightarrow> rtimestamp r \<le> rtimestamp row)))"
proof (intro conjI allI impI)
  show m: "mapLatest st node cond TS_TABLES_keys [] = Inr (merged st node cond)"
    using mapLatest_fold [OF assms(2)] by (simp add: merged_def)
  show "synthesizeObjectParameterized st node cond = convertToObject (merged st node cond)"
    using assms(1) m by (simp add: synthesizeObjectParameterized_def)
next
  fix p
  assume "partitions_with st node cond p = []"
  then show "map_of (merged st node cond) p = None"
    using map_of_fold_store [of st node cond "[]" TS_TABLES_keys p]
    by (simp add: merged_def partitions_with_def)
next
  fix p
  assume ne: "partitions_with st node cond p \<noteq> []"
  let ?t = "last (partitions_with st node cond p)"
  let ?row = "last (rows_for st ?t node cond p)"
  have "?t \<in> set (partitions_with st node cond p)" using ne by simp
  then have rne: "rows_for st ?t node cond p \<noteq> []"
    by (simp add: partitions_with_def)
  then have mem: "?row \<in> set (rows_for st ?t node cond p)" by simp
  have look: "map_of (merged st node cond) p = Some (entry_of ?row)"
    using map_of_fold_store [of st node cond "[]" TS_TABLES_keys p] ne
    by (simp add: merged_def partitions_with_def split: list.splits)
  have great: "\<forall>r \<in> set (rows_of st ?t).
      rnode r = node \<and> holds cond r \<and> rfield r = p \<longrightarrow> rtimestamp r \<le> rtimestamp ?row"
    using rows_for_last_greatest [of _ st ?t node cond p] by (simp add: rows_for_set)
  show "let t = last (partitions_with st node cond p);
            row = last (rows_for st t node cond p)
        in map_of (merged st node cond) p = Some (entry_of row) \<and>
           row \<in> set (rows_of st t) \<and> rnode row = node \<and> holds cond row \<and> rfield row = p \<and>
           (\<forall>r \<in> set (rows_of st t).
              rnode r = node \<and> holds cond r \<and> rfield r = p \<longrightarrow> rtimestamp r \<le> rtimestamp row)"
    using look great mem by (simp add: Let_def rows_for_set)
qed

lemma type_changed_value:
  "type_changed = example_db\<lparr>
      ts_string := \<lparr>trows = [\<lparr>rid = 26264, rnode = JNum 1, rfield = ''.a'', rvalue = ''new'', rtimestamp = 20, rlatest = 1\<rparr>],
                    tnext = 26265\<rparr>,
      ts_number := \<lparr>trows = [\<lparr>rid = 26264, rnode = JNum 1, rfield = ''.a'', rvalue = 1, rtimestamp = 10, rlatest = 1\<rparr>],
                    tnext = 26265\<rparr>\<rparr>"
  by (simp add: type_changed_def eval_defs)

text \<open>
  No time stamps are compared across tables: when a field was written as a number at
  time 10 and as a string at time 20, the snapshot shows the number, the older write.
\<close>

theorem older_number_beats_newer_string:
  "synthesizeObject type_changed (JNum 1)
     = Inr (JObj [(''a'', JObj [(''value'', JNum 1), (''timestamp'', JDate 10)])]) \<and>
   synthesizeObjectAt type_changed (JNum 1) (JDate 30)
     = Inr (JObj [(''a'', JObj [(''value'', JNum 1), (''timestamp'', JDate 10)])]) \<and>
   map (\<lambda>r. (rfield r, rvalue r, rtimestamp r)) (rows_of type_changed TString)
     = [(''.a'', VString ''new'', 20)]"
  by (simp add: type_changed_value example_db_def synthesizeObject_def synthesizeObjectAt_def
      synthesizeObjectParameterized_def lock_def isNode_def TS_TABLES_keys_def
      getTableForType_def select_asc_def store_rows_def entry_of_def tagged_def
      convertToObject_def leaf_def)

theorem synthesis_last_partition_wins_witness:
  "isNode (JNum 1) \<and> lock type_changed = None \<and>
   partitions_with type_changed (JNum 1) LatestNonZero ''.a'' = [TString, TNumber] \<and>
   map_of (merged type_changed (JNum 1) LatestNonZero) ''.a''
     = Some \<lparr>evalue = VNumber 1, etimestamp = 10\<rparr> \<and>
   map_of (merged type_changed (JNum 1) LatestNonZero) ''.b'' = None"
proof -
  have h: "isNode (JNum 1)" "lock type_changed = None"
    by (simp_all add: type_changed_value example_db_def isNode_def lock_def getTableForType_def)
  have p: "partitions_with type_changed (JNum 1) LatestNonZero ''.a'' = [TString, TNumber]"
    "partitions_with type_changed (JNum 1) LatestNonZero ''.b'' = []"
    by (simp_all add: type_changed_value example_db_def partitions_with_def rows_for_def
        select_asc_def TS_TABLES_keys_def tagged_def)
  have r: "entry_of (last (rows_for type_changed TNumber (JNum 1) LatestNonZero ''.a''))
             = \<lparr>evalue = VNumber 1, etimestamp = 10\<rparr>"
    by (simp add: type_changed_value example_db_def rows_for_def select_asc_def entry_of_def
        tagged_def)
  show ?thesis
    using synthesis_last_partition_wins [OF h, of LatestNonZero] h p r
    by (simp add: Let_def)
qed

subsection \<open>The round trip\<close>


lemma put_leaf_simp [simp]: "put_leaf (segs, lf) tr = fins segs lf tr"
  by (simp add: put_leaf_def)


lemma leaf_trees_simps [simp]:
  "leaf_trees ts [] = []" "leaf_trees ts (xs @ ys) = leaf_trees ts xs @ leaf_trees ts ys"
  "leaf_trees ts (map (\<lambda>(segs, tv). (k # segs, tv)) xs) = map (\<lambda>(segs, lf). (k # segs, lf)) (leaf_trees ts xs)"
  "leaf_trees ts xs = [] \<longleftrightarrow> xs = []"
  by (simp_all add: leaf_trees_def case_prod_unfold)








lemma fwalk_ok_empty [simp]: "fwalk_ok (UNode Map.empty) p"
  by (cases p) simp_all









lemma pathstr_simps [simp]:
  "pathstr [] = []" "pathstr (k # segs) = CHR ''.'' # k @ pathstr segs"
  "pathstr (a @ b) = pathstr a @ pathstr b"
  by (simp_all add: pathstr_def)












lemma new_obs_simps [simp]:
  "new_obs field ts t [] = []"
  "new_obs field ts t (xs @ ys) = new_obs field ts t xs @ new_obs field ts t ys"
  "new_obs field ts t [([], tv)] = (if t = type_of tv then [(field, tv, ts, 1)] else [])"
  by (auto simp add: new_obs_def)






















lemma sample_snapshot:
  "synthesizeObject (snd (insertObject example_db (JNum 1) (JObj sample_object) (JDate 10)))
     (JNum 1)
   = Inr (JObj
       [(''a'', JObj [(''value'', JNum 1), (''timestamp'', JDate 10)]),
        (''b'', JObj [(''value'', JStr ''Hello''), (''timestamp'', JDate 10)]),
        (''c'', JObj [(''value'', JBool True), (''timestamp'', JDate 10)]),
        (''d'', JObj [(''value'', JDate 3), (''timestamp'', JDate 10)]),
        (''e'', JObj [(''value'', JArr ''[1,2,3]''), (''timestamp'', JDate 10)]),
        (''sub'', JObj
           [(''x'', JObj [(''value'', JNum 2), (''timestamp'', JDate 10)]),
            (''y'', JObj
               [(''z'', JObj [(''value'', JBool False), (''timestamp'', JDate 10)])])])])"
  by (simp add: sample_object_def eval_defs synthesizeObject_def
      synthesizeObjectParameterized_def select_asc_def store_rows_def entry_of_def tagged_def
      convertToObject_def leaf_def)



end
